theory Spec2Isabelle
  imports Complex_Main "HOL-Library.AList"
begin

section \<open>Data model of \<open>dtu_data.py\<close>\<close>

text \<open>
  The history file is a JSON list of objects.  A field of an entry holds a JSON scalar:
  \<open>null\<close>, a boolean, a number or a string.  Numbers are modelled by their value (Python
  compares \<open>int\<close> and \<open>float\<close> by value, so \<open>0\<close> and \<open>0.0\<close> are the same number here);
  \<open>NaN\<close> and the infinities, and arrays or objects nested inside an entry, are outside the
  model.
\<close>

datatype jval = Null | Bool bool | Num rat | Str string

text \<open>
  A Python \<open>dict\<close> with string keys, in insertion order.  \<open>map_of\<close> is the lookup and
  \<open>AList.update\<close> the assignment \<open>d[k] = v\<close>: an existing key keeps its position, a new
  key goes to the end.
\<close>

type_synonym entry = "(string \<times> jval) list"

type_synonym history = "entry list"

datatype py_error = KeyError | TypeError | ValueError | OverflowError

text \<open>\<open>d.get(k, default)\<close>\<close>

definition dict_get :: "entry \<Rightarrow> string \<Rightarrow> jval \<Rightarrow> jval" where
  "dict_get d k dflt = (case map_of d k of Some v \<Rightarrow> v | None \<Rightarrow> dflt)"

text \<open>
  \<open>if x:\<close> where \<open>x\<close> is a dict or \<open>None\<close>: \<open>None\<close> and the empty dict are false.
  \<open>truthy x\<close> is the dict when the branch is taken, and \<open>None\<close> when it is not.
\<close>

definition truthy :: "entry option \<Rightarrow> entry option" where
  "truthy x = (case x of None \<Rightarrow> None | Some d \<Rightarrow> if d = [] then None else Some d)"

text \<open>Python's numeric tower on scalars: \<open>bool\<close> is a subtype of \<open>int\<close>.\<close>

fun to_num :: "jval \<Rightarrow> rat option" where
  "to_num (Num r) = Some r"
| "to_num (Bool b) = Some (if b then 1 else 0)"
| "to_num Null = None"
| "to_num (Str s) = None"

text \<open>\<open>a == b\<close>: by value between numbers, structural otherwise, never raises.\<close>

definition py_eq :: "jval \<Rightarrow> jval \<Rightarrow> bool" where
  "py_eq a b =
     (case (to_num a, to_num b) of
        (Some x, Some y) \<Rightarrow> x = y
      | (None, None) \<Rightarrow> a = b
      | _ \<Rightarrow> False)"

text \<open>Order of two \<open>str\<close> values: lexicographic by code point.\<close>

fun str_lt :: "string \<Rightarrow> string \<Rightarrow> bool" where
  "str_lt [] [] = False"
| "str_lt [] (y # ys) = True"
| "str_lt (x # xs) [] = False"
| "str_lt (x # xs) (y # ys) =
     (if x = y then str_lt xs ys else (of_char x :: nat) < of_char y)"

text \<open>
  \<open>a < b\<close>: between numbers by value, between strings lexicographically; every other
  pairing raises \<open>TypeError\<close>.
\<close>

definition py_lt :: "jval \<Rightarrow> jval \<Rightarrow> py_error + bool" where
  "py_lt a b =
     (case (to_num a, to_num b) of
        (Some x, Some y) \<Rightarrow> Inr (x < y)
      | _ \<Rightarrow> (case (a, b) of
                (Str s, Str t) \<Rightarrow> Inr (str_lt s t)
              | _ \<Rightarrow> Inl TypeError))"

section \<open>Naive \<open>datetime\<close> values\<close>

record datetime =
  year :: nat
  month :: nat
  day :: nat
  hour :: nat
  minute :: nat
  second :: nat
  microsecond :: nat

text \<open>\<open>t.date()\<close>\<close>

definition date_of :: "datetime \<Rightarrow> nat \<times> nat \<times> nat" where
  "date_of t = (year t, month t, day t)"

text \<open>
  Two naive datetimes compare as the tuples of their seven fields, lexicographically.
\<close>

definition dt_fields :: "datetime \<Rightarrow> nat list" where
  "dt_fields t = [year t, month t, day t, hour t, minute t, second t, microsecond t]"

fun lex_lt :: "nat list \<Rightarrow> nat list \<Rightarrow> bool" where
  "lex_lt (x # xs) (y # ys) = (x < y \<or> (x = y \<and> lex_lt xs ys))"
| "lex_lt _ _ = False"

text \<open>\<open>a > b\<close> on datetimes\<close>

definition dt_gt :: "datetime \<Rightarrow> datetime \<Rightarrow> bool" where
  "dt_gt a b = lex_lt (dt_fields b) (dt_fields a)"

definition is_leap :: "nat \<Rightarrow> bool" where
  "is_leap y = (y mod 4 = 0 \<and> (y mod 100 \<noteq> 0 \<or> y mod 400 = 0))"

definition days_in_month :: "nat \<Rightarrow> nat \<Rightarrow> nat" where
  "days_in_month y m =
     (if m = 2 then (if is_leap y then 29 else 28)
      else if m = 4 \<or> m = 6 \<or> m = 9 \<or> m = 11 then 30
      else 31)"

text \<open>
  \<open>t - timedelta(hours=24)\<close>: the same time of day on the previous calendar day.  On
  0001-01-01 the result would precede \<open>datetime.min\<close> and Python raises \<open>OverflowError\<close>:
  the value \<open>None\<close> here.
\<close>

definition minus_24h :: "datetime \<Rightarrow> datetime option" where
  "minus_24h t =
     (if 1 < day t then Some (t\<lparr>day := day t - 1\<rparr>)
      else if 1 < month t then
        Some (t\<lparr>month := month t - 1, day := days_in_month (year t) (month t - 1)\<rparr>)
      else if 1 < year t then Some (t\<lparr>year := year t - 1, month := 12, day := 31\<rparr>)
      else None)"

subsection \<open>\<open>datetime.strptime(s, "%Y-%m-%d %H:%M")\<close>\<close>

text \<open>
  CPython turns the format into the regular expression
  \<^verbatim>\<open>(?P<Y>\d\d\d\d)-(?P<m>1[0-2]|0[1-9]|[1-9])-(?P<d>3[0-1]|[1-2]\d|0[1-9]|[1-9]| [1-9])\s+(?P<H>2[0-3]|[0-1]\d|\d):(?P<M>[0-5]\d|\d)\<close>,
  takes its first match at the start of the string, raises \<open>ValueError\<close> when there is
  none or when text remains after it, and then builds the date, raising \<open>ValueError\<close>
  for year 0 or a day the month does not have.  Each piece of the expression is a function
  from the remaining input to the list of its matches in the order the matcher tries
  them.  A character is a code point below 256: there \<open>\d\<close> accepts the ten ASCII
  digits only, and \<open>\s\<close> the ASCII white space, U+0085 and U+00A0.  Code points from 256
  on are not modelled.
\<close>

definition is_digit :: "char \<Rightarrow> bool" where
  "is_digit c = (c \<in> set ''0123456789'')"

text \<open>The value of a digit, by its place in the table; 0 for any other character.\<close>

definition digit_val :: "char \<Rightarrow> nat" where
  "digit_val c =
     (case map_of (zip ''0123456789'' [0, 1, 2, 3, 4, 5, 6, 7, 8, 9]) c of
        Some n \<Rightarrow> n
      | None \<Rightarrow> 0)"

text \<open>\<open>\s\<close>: tab, line feed, vertical tab, form feed, carriage return, the four
  separators 0x1C to 0x1F, space, next line (0x85) and no-break space (0xA0).\<close>

definition is_space :: "char \<Rightarrow> bool" where
  "is_space c = ((of_char c :: nat) \<in> {9, 10, 11, 12, 13, 28, 29, 30, 31, 32, 133, 160})"

text \<open>Two characters from the classes \<open>p\<close> and \<open>q\<close>, read as a two-digit number.\<close>

fun two :: "(char \<Rightarrow> bool) \<Rightarrow> (char \<Rightarrow> bool) \<Rightarrow> string \<Rightarrow> (nat \<times> string) list" where
  "two p q (a # b # r) = (if p a \<and> q b then [(10 * digit_val a + digit_val b, r)] else [])"
| "two p q _ = []"

text \<open>One character from the class \<open>p\<close>, read as a digit.\<close>

fun one :: "(char \<Rightarrow> bool) \<Rightarrow> string \<Rightarrow> (nat \<times> string) list" where
  "one p (a # r) = (if p a then [(digit_val a, r)] else [])"
| "one p [] = []"

text \<open>A literal character.\<close>

fun lit :: "char \<Rightarrow> string \<Rightarrow> string list" where
  "lit c (a # r) = (if a = c then [r] else [])"
| "lit c [] = []"

definition in_range :: "char \<Rightarrow> char \<Rightarrow> char \<Rightarrow> bool" where
  "in_range lo hi c = (is_digit c \<and> digit_val lo \<le> digit_val c \<and> digit_val c \<le> digit_val hi)"

text \<open>\<open>\d\d\d\d\<close>\<close>

fun re_Y :: "string \<Rightarrow> (nat \<times> string) list" where
  "re_Y (a # b # c # d # r) =
     (if is_digit a \<and> is_digit b \<and> is_digit c \<and> is_digit d
      then [(1000 * digit_val a + 100 * digit_val b + 10 * digit_val c + digit_val d, r)]
      else [])"
| "re_Y _ = []"

text \<open>\<open>1[0-2]|0[1-9]|[1-9]\<close>\<close>

definition re_m :: "string \<Rightarrow> (nat \<times> string) list" where
  "re_m s =
     two (\<lambda>c. c = CHR ''1'') (in_range CHR ''0'' CHR ''2'') s
     @ two (\<lambda>c. c = CHR ''0'') (in_range CHR ''1'' CHR ''9'') s
     @ one (in_range CHR ''1'' CHR ''9'') s"

text \<open>\<open>3[0-1]|[1-2]\d|0[1-9]|[1-9]| [1-9]\<close>; a leading space reads as a zero.\<close>

definition re_d :: "string \<Rightarrow> (nat \<times> string) list" where
  "re_d s =
     two (\<lambda>c. c = CHR ''3'') (in_range CHR ''0'' CHR ''1'') s
     @ two (in_range CHR ''1'' CHR ''2'') is_digit s
     @ two (\<lambda>c. c = CHR ''0'') (in_range CHR ''1'' CHR ''9'') s
     @ one (in_range CHR ''1'' CHR ''9'') s
     @ two (\<lambda>c. c = CHR '' '') (in_range CHR ''1'' CHR ''9'') s"

text \<open>\<open>2[0-3]|[0-1]\d|\d\<close>\<close>

definition re_H :: "string \<Rightarrow> (nat \<times> string) list" where
  "re_H s =
     two (\<lambda>c. c = CHR ''2'') (in_range CHR ''0'' CHR ''3'') s
     @ two (in_range CHR ''0'' CHR ''1'') is_digit s
     @ one is_digit s"

text \<open>\<open>[0-5]\d|\d\<close>\<close>

definition re_M :: "string \<Rightarrow> (nat \<times> string) list" where
  "re_M s = two (in_range CHR ''0'' CHR ''5'') is_digit s @ one is_digit s"

text \<open>\<open>\s+\<close>, greedy: the longest run of white space first, then each shorter one.\<close>

fun re_ws :: "string \<Rightarrow> string list" where
  "re_ws [] = []"
| "re_ws (a # r) = (if is_space a then re_ws r @ [r] else [])"

text \<open>All matches of the whole expression, in the matcher's order: the five numbers and
  the text left after the match.\<close>

definition format_regex_match :: "string \<Rightarrow> ((nat \<times> nat \<times> nat \<times> nat \<times> nat) \<times> string) list" where
  "format_regex_match s =
     List.bind (re_Y s) (\<lambda>(y, r0).
     List.bind (lit CHR ''-'' r0) (\<lambda>r1.
     List.bind (re_m r1) (\<lambda>(m, r2).
     List.bind (lit CHR ''-'' r2) (\<lambda>r3.
     List.bind (re_d r3) (\<lambda>(d, r4).
     List.bind (re_ws r4) (\<lambda>r5.
     List.bind (re_H r5) (\<lambda>(H, r6).
     List.bind (lit CHR '':'' r6) (\<lambda>r7.
     List.bind (re_M r7) (\<lambda>(M, r8). [((y, m, d, H, M), r8)])))))))))"

definition strptime :: "string \<Rightarrow> py_error + datetime" where
  "strptime s =
     (case format_regex_match s of
        [] \<Rightarrow> Inl ValueError
      | ((y, m, d, H, M), rest) # _ \<Rightarrow>
          if rest \<noteq> [] then Inl ValueError
          else if y < 1 \<or> days_in_month y m < d then Inl ValueError
          else Inr \<lparr>year = y, month = m, day = d, hour = H, minute = M,
                    second = 0, microsecond = 0\<rparr>)"

subsection \<open>\<open>t.strftime("%Y-%m-%d %H:%M")\<close>\<close>

definition digit_char :: "nat \<Rightarrow> char" where
  "digit_char n = ''0123456789'' ! (n mod 10)"

definition pad2 :: "nat \<Rightarrow> string" where
  "pad2 n = [digit_char (n div 10), digit_char n]"

text \<open>
  \<open>%Y\<close> as the C library writes it: the decimal digits of the year without padding, so
  four digits from the year 1000 on.  The year of a \<open>datetime\<close> is between 1 and 9999.
\<close>

definition year_str :: "nat \<Rightarrow> string" where
  "year_str y =
     (if y < 10 then [digit_char y]
      else if y < 100 then [digit_char (y div 10), digit_char y]
      else if y < 1000 then [digit_char (y div 100), digit_char (y div 10), digit_char y]
      else [digit_char (y div 1000), digit_char (y div 100), digit_char (y div 10),
            digit_char y])"

definition strftime :: "datetime \<Rightarrow> string" where
  "strftime t =
     year_str (year t)
     @ ''-'' @ pad2 (month t) @ ''-'' @ pad2 (day t)
     @ '' '' @ pad2 (hour t) @ '':'' @ pad2 (minute t)"

section \<open>\<open>prune_old_entries\<close>\<close>

text \<open>
  The body of the \<open>try\<close> in the loop: \<open>datetime.strptime(entry["timestamp"], ...)\<close>.
  A missing key raises \<open>KeyError\<close>, a value that is not a string \<open>TypeError\<close>, a string
  that does not parse \<open>ValueError\<close>.
\<close>

definition entry_time :: "entry \<Rightarrow> py_error + datetime" where
  "entry_time e =
     (case map_of e ''timestamp'' of
        None \<Rightarrow> Inl KeyError
      | Some (Str s) \<Rightarrow> strptime s
      | Some _ \<Rightarrow> Inl TypeError)"

text \<open>
  The \<open>for\<close> loop with its accumulator \<open>pruned\<close>; \<open>except Exception: pass\<close> is the
  \<open>Inl\<close> branch.
\<close>

fun prune_loop :: "datetime \<Rightarrow> history \<Rightarrow> history \<Rightarrow> history" where
  "prune_loop cutoff pruned [] = pruned"
| "prune_loop cutoff pruned (e # rest) =
     (case entry_time e of
        Inr entry_time' \<Rightarrow>
          if dt_gt entry_time' cutoff then prune_loop cutoff (pruned @ [e]) rest
          else prune_loop cutoff pruned rest
      | Inl _ \<Rightarrow> prune_loop cutoff pruned rest)"

text \<open>\<open>now\<close> is the clock reading \<open>datetime.now()\<close> the function takes.\<close>

definition prune_old_entries :: "history \<Rightarrow> datetime \<Rightarrow> py_error + history" where
  "prune_old_entries h now =
     (case minus_24h now of
        None \<Rightarrow> Inl OverflowError
      | Some cutoff \<Rightarrow> Inr (prune_loop cutoff [] h))"

section \<open>\<open>get_dtu_data\<close>\<close>

text \<open>
  The query of the device is outside the model.  What \<open>get_dtu_data\<close> returns is either
  \<open>None\<close> or the dict of its \<open>return\<close> statement: the timestamp of the query, the power
  rounded to an integer, and the two energies rounded to two decimals.
\<close>

definition get_dtu_data_dict :: "string \<Rightarrow> int \<Rightarrow> rat \<Rightarrow> rat \<Rightarrow> entry" where
  "get_dtu_data_dict ts p d t =
     [(''timestamp'', Str ts),
      (''power'', Num (of_int p)),
      (''energy_daily'', Num d),
      (''energy_total'', Num t)]"

section \<open>\<open>main\<close>\<close>

text \<open>\<open>last_entry = history[-1] if history else None\<close>\<close>

definition last_entry_of :: "history \<Rightarrow> entry option" where
  "last_entry_of h = (if h \<noteq> [] then Some (last h) else None)"

text \<open>
  The computation of \<open>last_date\<close>: \<open>None\<close> unless \<open>if last_entry:\<close> holds and the
  timestamp parses (\<open>except Exception\<close> is the \<open>Inl\<close> branch).
\<close>

definition last_date_of :: "entry option \<Rightarrow> (nat \<times> nat \<times> nat) option" where
  "last_date_of last_entry =
     (case truthy last_entry of
        Some le \<Rightarrow> (case entry_time le of
                     Inr t \<Rightarrow> Some (date_of t)
                   | Inl _ \<Rightarrow> None)
      | None \<Rightarrow> None)"

text \<open>\<open>new_day = (last_date is not None) and (now.date() != last_date)\<close>\<close>

definition is_new_day :: "entry option \<Rightarrow> datetime \<Rightarrow> bool" where
  "is_new_day last_entry now =
     (case last_date_of last_entry of
        None \<Rightarrow> False
      | Some last_date \<Rightarrow> date_of now \<noteq> last_date)"

text \<open>
  The branch \<open>if new_day:\<close> under \<open>if result:\<close>.  The default
  \<open>result["energy_total"]\<close> is evaluated before \<open>get\<close> is called, so a result without
  that key raises \<open>KeyError\<close>.
\<close>

definition new_day_reset :: "entry \<Rightarrow> entry option \<Rightarrow> py_error + entry" where
  "new_day_reset result last_entry =
     (let r1 = AList.update ''energy_daily'' (Num 0) result in
      case truthy last_entry of
        Some le \<Rightarrow>
          (case map_of r1 ''energy_total'' of
             None \<Rightarrow> Inl KeyError
           | Some rt \<Rightarrow> Inr (AList.update ''energy_total'' (dict_get le ''energy_total'' rt) r1))
      | None \<Rightarrow> Inr r1)"

text \<open>
  The \<open>else\<close> branch, the night fallback.  \<open>result.get("energy_total")\<close> without a
  default gives \<open>None\<close> for a missing key.
\<close>

definition night_fallback :: "entry \<Rightarrow> entry option \<Rightarrow> py_error + entry" where
  "night_fallback result last_entry =
     (if py_eq (dict_get result ''power'' (Num 0)) (Num 0) then
        (case truthy last_entry of
           Some le \<Rightarrow>
             (let r1 = (if py_eq (dict_get result ''energy_daily'' (Num 0)) (Num 0)
                        then AList.update ''energy_daily'' (dict_get le ''energy_daily'' (Num 0)) result
                        else result)
              in case py_lt (dict_get r1 ''energy_total'' (Num 0)) (dict_get le ''energy_total'' (Num 0)) of
                   Inl err \<Rightarrow> Inl err
                 | Inr lower \<Rightarrow>
                     if lower then
                       Inr (AList.update ''energy_total''
                              (dict_get le ''energy_total'' (dict_get r1 ''energy_total'' Null)) r1)
                     else Inr r1)
         | None \<Rightarrow> Inr result)
      else Inr result)"

text \<open>The branch without a valid response: the fallback dict that is appended.\<close>

definition no_data_fallback :: "entry option \<Rightarrow> bool \<Rightarrow> datetime \<Rightarrow> entry" where
  "no_data_fallback last_entry new_day now =
     (let timestamp = strftime now in
      case truthy last_entry of
        Some le \<Rightarrow>
          (let fallback_daily = (if new_day then Num 0 else dict_get le ''energy_daily'' (Num 0));
               fallback_total = dict_get le ''energy_total'' (Num 0)
           in [(''timestamp'', Str timestamp),
               (''power'', Num 0),
               (''energy_daily'', fallback_daily),
               (''energy_total'', fallback_total)])
      | None \<Rightarrow>
          [(''timestamp'', Str timestamp),
           (''power'', Num 0),
           (''energy_daily'', Num 0),
           (''energy_total'', Num 0)])"

text \<open>
  The decision of \<open>main\<close> from \<open>if result:\<close> on, up to the entry that is appended to the
  history: \<open>result\<close> is what \<open>get_dtu_data\<close> returned, \<open>last_entry\<close>, \<open>new_day\<close> and
  \<open>now\<close> are the local variables of \<open>main\<close>.
\<close>

definition reconcile :: "entry option \<Rightarrow> entry option \<Rightarrow> bool \<Rightarrow> datetime \<Rightarrow> py_error + entry" where
  "reconcile result last_entry new_day now =
     (case truthy result of
        Some r \<Rightarrow> if new_day then new_day_reset r last_entry else night_fallback r last_entry
      | None \<Rightarrow> Inr (no_data_fallback last_entry new_day now))"

text \<open>
  One run of \<open>main\<close>.  \<open>loaded\<close> is the list \<open>load_history\<close> returned, \<open>prune_now\<close> the
  clock reading inside \<open>prune_old_entries\<close>, \<open>now\<close> the later reading of \<open>main\<close> itself,
  \<open>result\<close> the outcome of the query.  The value is the history handed to \<open>json.dump\<close>.
  The log line of a live entry reads \<open>result['timestamp']\<close>, which raises \<open>KeyError\<close> on a
  result without that key; the text of the log lines is not modelled.
\<close>

definition main :: "history \<Rightarrow> datetime \<Rightarrow> datetime \<Rightarrow> entry option \<Rightarrow> py_error + history" where
  "main loaded prune_now now result =
     (case prune_old_entries loaded prune_now of
        Inl err \<Rightarrow> Inl err
      | Inr h \<Rightarrow>
          (let last_entry = last_entry_of h;
               new_day = is_new_day last_entry now
           in case reconcile result last_entry new_day now of
                Inl err \<Rightarrow> Inl err
              | Inr e \<Rightarrow>
                  if truthy result \<noteq> None \<and> map_of e ''timestamp'' = None then Inl KeyError
                  else Inr (h @ [e])))"

section \<open>The specification's wording\<close>

text \<open>
  The retention test of the specification: the timestamp of the entry parses and is
  strictly after the cutoff.
\<close>

definition within_window :: "datetime \<Rightarrow> entry \<Rightarrow> bool" where
  "within_window cutoff e = (case entry_time e of Inr t \<Rightarrow> dt_gt t cutoff | Inl _ \<Rightarrow> False)"

text \<open>
  The reading "a missing field of the last entry is treated as the value 0": the last
  entry in which a missing \<open>energy_daily\<close> or \<open>energy_total\<close> has been given the value 0;
  fields that are present are left alone.
\<close>

definition fill_zero :: "string \<Rightarrow> entry \<Rightarrow> entry" where
  "fill_zero k le = (case map_of le k of None \<Rightarrow> le @ [(k, Num 0)] | Some _ \<Rightarrow> le)"

definition zero_filled :: "entry \<Rightarrow> entry" where
  "zero_filled le = fill_zero ''energy_total'' (fill_zero ''energy_daily'' le)"

section \<open>Properties of the pruning loop\<close>

lemma prune_loop_filter: "prune_loop cutoff pruned h = pruned @ filter (within_window cutoff) h"
  by (induction h arbitrary: pruned) (auto simp: within_window_def split: sum.splits)

lemma prune_old_entries_filter:
  "minus_24h now = Some cutoff \<Longrightarrow>
   prune_old_entries h now = Inr (filter (within_window cutoff) h)"
  by (simp add: prune_old_entries_def prune_loop_filter)

section \<open>The branches of \<open>main\<close>\<close>

lemma truthy_Some: "le \<noteq> [] \<Longrightarrow> truthy (Some le) = Some le"
  by (simp add: truthy_def)

lemma truthy_field: "map_of le k = Some v \<Longrightarrow> truthy (Some le) = Some le"
  by (rule truthy_Some) auto

lemma truthy_cases:
  "truthy x = None \<or> (\<exists>le. truthy x = Some le \<and> x = Some le \<and> le \<noteq> [])"
  by (auto simp: truthy_def split: option.splits)

lemma dtu_nonempty: "get_dtu_data_dict ts p d t \<noteq> []"
  by (simp add: get_dtu_data_dict_def)

lemma reconcile_sample:
  "r \<noteq> [] \<Longrightarrow> reconcile (Some r) last_entry new_day now =
     (if new_day then new_day_reset r last_entry else night_fallback r last_entry)"
  by (simp add: reconcile_def truthy_def)

lemma reconcile_absent:
  "reconcile None last_entry new_day now = Inr (no_data_fallback last_entry new_day now)"
  by (simp add: reconcile_def truthy_def)

lemma new_day_reset_some:
  "truthy last_entry = Some le \<Longrightarrow>
   new_day_reset (get_dtu_data_dict ts p d t) last_entry =
     Inr [(''timestamp'', Str ts), (''power'', Num (of_int p)), (''energy_daily'', Num 0),
          (''energy_total'', dict_get le ''energy_total'' (Num t))]"
  by (simp add: new_day_reset_def get_dtu_data_dict_def)

lemma new_day_reset_none:
  "truthy last_entry = None \<Longrightarrow>
   new_day_reset (get_dtu_data_dict ts p d t) last_entry =
     Inr [(''timestamp'', Str ts), (''power'', Num (of_int p)), (''energy_daily'', Num 0),
          (''energy_total'', Num t)]"
  by (simp add: new_day_reset_def get_dtu_data_dict_def)

lemma new_day_reset_daily:
  "new_day_reset r last_entry = Inr e \<Longrightarrow> map_of e ''energy_daily'' = Some (Num 0)"
  by (auto simp: new_day_reset_def Let_def AList.update_conv' split: option.splits)

lemma night_fallback_nonzero:
  "p \<noteq> 0 \<Longrightarrow>
   night_fallback (get_dtu_data_dict ts p d t) last_entry = Inr (get_dtu_data_dict ts p d t)"
  by (simp add: night_fallback_def get_dtu_data_dict_def dict_get_def py_eq_def)

lemma night_fallback_zero:
  "truthy last_entry = Some le \<Longrightarrow> to_num (dict_get le ''energy_total'' (Num 0)) = Some lt \<Longrightarrow>
   night_fallback (get_dtu_data_dict ts 0 d t) last_entry =
     Inr [(''timestamp'', Str ts), (''power'', Num 0),
          (''energy_daily'', if d = 0 then dict_get le ''energy_daily'' (Num 0) else Num d),
          (''energy_total'', if t < lt then dict_get le ''energy_total'' (Num t) else Num t)]"
  by (auto simp: night_fallback_def get_dtu_data_dict_def dict_get_def py_eq_def py_lt_def
      split: option.splits)

lemma night_fallback_zero_daily:
  "truthy last_entry = Some le \<Longrightarrow>
   night_fallback (get_dtu_data_dict ts 0 0 t) last_entry = Inr e \<Longrightarrow>
   map_of e ''energy_daily'' = Some (dict_get le ''energy_daily'' (Num 0))
   \<and> map_of e ''power'' = Some (Num 0)"
  by (auto simp: night_fallback_def get_dtu_data_dict_def dict_get_def py_eq_def Let_def
      split: sum.splits if_splits option.splits)

lemma no_data_fallback_some:
  "truthy last_entry = Some le \<Longrightarrow>
   no_data_fallback last_entry new_day now =
     [(''timestamp'', Str (strftime now)), (''power'', Num 0),
      (''energy_daily'', if new_day then Num 0 else dict_get le ''energy_daily'' (Num 0)),
      (''energy_total'', dict_get le ''energy_total'' (Num 0))]"
  by (simp add: no_data_fallback_def)

lemma no_data_fallback_none:
  "truthy last_entry = None \<Longrightarrow>
   no_data_fallback last_entry new_day now =
     [(''timestamp'', Str (strftime now)), (''power'', Num 0),
      (''energy_daily'', Num 0), (''energy_total'', Num 0)]"
  by (simp add: no_data_fallback_def)

text \<open>
  A run of \<open>main\<close> appends to the pruned history the entry that \<open>reconcile\<close> gives for
  the last pruned entry and the day change computed from it.
\<close>

lemma main_cycle:
  assumes "prune_old_entries loaded prune_now = Inr h"
    and "reconcile result (last_entry_of h) (is_new_day (last_entry_of h) now) now = Inr e"
    and "map_of e ''timestamp'' \<noteq> None"
  shows "main loaded prune_now now result = Inr (h @ [e])"
  using assms by (simp add: main_def Let_def)

lemmas eval_defs =
  reconcile_def truthy_def new_day_reset_def night_fallback_def no_data_fallback_def
  get_dtu_data_dict_def dict_get_def py_eq_def py_lt_def
  is_new_day_def last_date_of_def last_entry_of_def entry_time_def date_of_def
  strptime_def format_regex_match_def re_m_def re_d_def re_H_def re_M_def in_range_def
  is_digit_def digit_val_def is_space_def days_in_month_def is_leap_def
  strftime_def year_str_def pad2_def digit_char_def
  prune_old_entries_def minus_24h_def dt_gt_def dt_fields_def within_window_def
  main_def

section \<open>Pruning\<close>

text \<open>
  C6.  For every history and every clock reading from which 24 hours can be subtracted,
  \<open>prune_old_entries\<close> returns, without raising, exactly the entries whose timestamp
  parses and is strictly after the reading minus 24 hours, in their order in the history;
  entries whose timestamp is missing, is not a string or does not parse are dropped.
\<close>

theorem prune_old_entries_subsequence:
  assumes "minus_24h now = Some cutoff"
  shows "prune_old_entries h now = Inr (filter (within_window cutoff) h)"
  using assms by (simp add: prune_old_entries_def prune_loop_filter)

theorem prune_old_entries_subsequence_witness:
  "minus_24h \<lparr>year = 2024, month = 6, day = 2, hour = 12, minute = 0, second = 0,
              microsecond = 0\<rparr>
     = Some \<lparr>year = 2024, month = 6, day = 1, hour = 12, minute = 0, second = 0,
             microsecond = 0\<rparr>
   \<and> prune_old_entries
       [[(''timestamp'', Str ''2024-06-01 11:59''), (''power'', Num 1)],
        [(''timestamp'', Str ''yesterday''), (''power'', Num 2)],
        [(''timestamp'', Str ''2024-06-01 12:00''), (''power'', Num 3)],
        [(''power'', Num 4)],
        [(''timestamp'', Str ''2024-06-01 12:01''), (''power'', Num 5)],
        [(''timestamp'', Num 6)],
        [(''timestamp'', Str ''2024-06-02 11:55''), (''power'', Num 7)]]
       \<lparr>year = 2024, month = 6, day = 2, hour = 12, minute = 0, second = 0,
          microsecond = 0\<rparr>
     = Inr [[(''timestamp'', Str ''2024-06-01 12:01''), (''power'', Num 5)],
            [(''timestamp'', Str ''2024-06-02 11:55''), (''power'', Num 7)]]"
  using prune_old_entries_subsequence
    [of "\<lparr>year = 2024, month = 6, day = 2, hour = 12, minute = 0, second = 0,
           microsecond = 0\<rparr>"
        "\<lparr>year = 2024, month = 6, day = 1, hour = 12, minute = 0, second = 0,
           microsecond = 0\<rparr>"
        "[[(''timestamp'', Str ''2024-06-01 11:59''), (''power'', Num 1)],
        [(''timestamp'', Str ''yesterday''), (''power'', Num 2)],
        [(''timestamp'', Str ''2024-06-01 12:00''), (''power'', Num 3)],
        [(''power'', Num 4)],
        [(''timestamp'', Str ''2024-06-01 12:01''), (''power'', Num 5)],
        [(''timestamp'', Num 6)],
        [(''timestamp'', Str ''2024-06-02 11:55''), (''power'', Num 7)]]"]
  by (simp add: minus_24h_def within_window_def entry_time_def dt_gt_def dt_fields_def
      strptime_def format_regex_match_def re_m_def re_d_def re_H_def re_M_def in_range_def
      is_digit_def digit_val_def is_space_def days_in_month_def is_leap_def)

text \<open>
  C9.  Pruning is idempotent: for every history and every clock reading from which 24
  hours can be subtracted, pruning returns a history, and pruning that history again
  with the same reading returns it unchanged.
\<close>

theorem prune_old_entries_idempotent:
  assumes "minus_24h now = Some cutoff"
  shows "\<exists>p. prune_old_entries h now = Inr p \<and> prune_old_entries p now = Inr p"
  using assms by (simp add: prune_old_entries_def prune_loop_filter)

theorem prune_old_entries_idempotent_witness:
  "minus_24h \<lparr>year = 2024, month = 3, day = 1, hour = 0, minute = 5, second = 10,
              microsecond = 0\<rparr>
     = Some \<lparr>year = 2024, month = 2, day = 29, hour = 0, minute = 5, second = 10,
             microsecond = 0\<rparr>
   \<and> (\<exists>p. prune_old_entries
             [[(''timestamp'', Str ''2024-02-29 00:05'')],
              [(''timestamp'', Str ''2024-02-29 00:06'')]]
             \<lparr>year = 2024, month = 3, day = 1, hour = 0, minute = 5, second = 10,
                microsecond = 0\<rparr> = Inr p
          \<and> prune_old_entries p
             \<lparr>year = 2024, month = 3, day = 1, hour = 0, minute = 5, second = 10,
                microsecond = 0\<rparr> = Inr p)"
  using prune_old_entries_idempotent
    [of "\<lparr>year = 2024, month = 3, day = 1, hour = 0, minute = 5, second = 10,
           microsecond = 0\<rparr>"
        "\<lparr>year = 2024, month = 2, day = 29, hour = 0, minute = 5, second = 10,
           microsecond = 0\<rparr>"
        "[[(''timestamp'', Str ''2024-02-29 00:05'')],
          [(''timestamp'', Str ''2024-02-29 00:06'')]]"]
  by (simp add: minus_24h_def days_in_month_def is_leap_def)

section \<open>Day change\<close>

text \<open>
  C8.  The day-change flag of \<open>main\<close> is true if and only if there is a last entry, its
  timestamp parses, and its calendar date differs from the date of \<open>now\<close>.  In particular
  it is false without a last entry and false when the timestamp of the last entry does
  not parse.
\<close>

theorem is_new_day_iff:
  "(is_new_day last_entry now \<longleftrightarrow>
      (\<exists>le t. last_entry = Some le \<and> entry_time le = Inr t \<and> date_of t \<noteq> date_of now))
   \<and> \<not> is_new_day None now
   \<and> (\<forall>le err. entry_time le = Inl err \<longrightarrow> \<not> is_new_day (Some le) now)"
proof -
  have empty: "entry_time [] = Inl KeyError"
    by (simp add: entry_time_def)
  have "is_new_day last_entry now \<longleftrightarrow>
      (\<exists>le t. last_entry = Some le \<and> entry_time le = Inr t \<and> date_of t \<noteq> date_of now)"
    using empty
    by (cases last_entry) (auto simp: is_new_day_def last_date_of_def truthy_def split: sum.splits)
  moreover have "\<not> is_new_day None now"
    by (simp add: is_new_day_def last_date_of_def truthy_def)
  moreover have "\<forall>le err. entry_time le = Inl err \<longrightarrow> \<not> is_new_day (Some le) now"
    by (auto simp: is_new_day_def last_date_of_def truthy_def split: sum.splits)
  ultimately show ?thesis by blast
qed

theorem is_new_day_iff_witness:
  "is_new_day (Some [(''timestamp'', Str ''2024-06-01 23:58''), (''power'', Num 0), (''energy_daily'', Num (123/10)), (''energy_total'', Num (450/100))]) \<lparr>year = 2024, month = 6, day = 2, hour = 0, minute = 2, second = 0, microsecond = 0\<rparr>
   \<and> entry_time [(''timestamp'', Str ''2024-06-01 23:58''), (''power'', Num 0), (''energy_daily'', Num (123/10)), (''energy_total'', Num (450/100))] = Inr \<lparr>year = 2024, month = 6, day = 1, hour = 23, minute = 58, second = 0, microsecond = 0\<rparr>
   \<and> date_of \<lparr>year = 2024, month = 6, day = 1, hour = 23, minute = 58, second = 0, microsecond = 0\<rparr> \<noteq> date_of \<lparr>year = 2024, month = 6, day = 2, hour = 0, minute = 2, second = 0, microsecond = 0\<rparr>
   \<and> \<not> is_new_day None \<lparr>year = 2024, month = 6, day = 2, hour = 0, minute = 2, second = 0, microsecond = 0\<rparr>
   \<and> entry_time [(''timestamp'', Str ''2024-06-01T23:58'')] = Inl ValueError
   \<and> \<not> is_new_day (Some [(''timestamp'', Str ''2024-06-01T23:58'')]) \<lparr>year = 2024, month = 6, day = 2, hour = 0, minute = 2, second = 0, microsecond = 0\<rparr>"
  using is_new_day_iff [of "Some [(''timestamp'', Str ''2024-06-01 23:58''), (''power'', Num 0), (''energy_daily'', Num (123/10)), (''energy_total'', Num (450/100))]" "\<lparr>year = 2024, month = 6, day = 2, hour = 0, minute = 2, second = 0, microsecond = 0\<rparr>"]
  by (simp add: eval_defs)

section \<open>The entry that a run appends\<close>

text \<open>
  C7.  Without a sample: when a last entry exists (here with both energy fields), the
  entry produced has the current timestamp, power 0, \<open>energy_daily\<close> 0 on a new day and
  otherwise that of the last entry, and the \<open>energy_total\<close> of the last entry; when no
  last entry exists, the entry produced has the current timestamp and power, daily
  energy and total energy 0.
\<close>

theorem no_sample_fallback_entry:
  "(map_of le ''energy_daily'' = Some ld \<and> map_of le ''energy_total'' = Some lt \<longrightarrow>
     reconcile None (Some le) new_day now =
       Inr [(''timestamp'', Str (strftime now)), (''power'', Num 0),
            (''energy_daily'', if new_day then Num 0 else ld), (''energy_total'', lt)])
   \<and> reconcile None None new_day now =
       Inr [(''timestamp'', Str (strftime now)), (''power'', Num 0),
            (''energy_daily'', Num 0), (''energy_total'', Num 0)]"
proof (intro conjI impI)
  assume a: "map_of le ''energy_daily'' = Some ld \<and> map_of le ''energy_total'' = Some lt"
  then have "truthy (Some le) = Some le"
    by (auto intro: truthy_field)
  with a show "reconcile None (Some le) new_day now =
       Inr [(''timestamp'', Str (strftime now)), (''power'', Num 0),
            (''energy_daily'', if new_day then Num 0 else ld), (''energy_total'', lt)]"
    by (simp add: reconcile_absent no_data_fallback_some dict_get_def)
next
  show "reconcile None None new_day now =
       Inr [(''timestamp'', Str (strftime now)), (''power'', Num 0),
            (''energy_daily'', Num 0), (''energy_total'', Num 0)]"
    by (simp add: reconcile_absent no_data_fallback_none truthy_def)
qed

theorem no_sample_fallback_entry_witness:
  "map_of [(''timestamp'', Str ''2024-06-01 11:55''), (''power'', Num 3), (''energy_daily'', Num 8), (''energy_total'', Num (32/10))] ''energy_daily'' = Some (Num 8)
   \<and> map_of [(''timestamp'', Str ''2024-06-01 11:55''), (''power'', Num 3), (''energy_daily'', Num 8), (''energy_total'', Num (32/10))] ''energy_total'' = Some (Num (32/10))
   \<and> reconcile None (Some [(''timestamp'', Str ''2024-06-01 11:55''), (''power'', Num 3), (''energy_daily'', Num 8), (''energy_total'', Num (32/10))]) False \<lparr>year = 2024, month = 6, day = 1, hour = 12, minute = 0, second = 7, microsecond = 0\<rparr> = Inr [(''timestamp'', Str ''2024-06-01 12:00''), (''power'', Num 0), (''energy_daily'', Num 8), (''energy_total'', Num (32/10))]
   \<and> reconcile None None False \<lparr>year = 2024, month = 6, day = 1, hour = 12, minute = 0, second = 7, microsecond = 0\<rparr> = Inr [(''timestamp'', Str ''2024-06-01 12:00''), (''power'', Num 0), (''energy_daily'', Num 0), (''energy_total'', Num 0)]"
  using no_sample_fallback_entry [of "[(''timestamp'', Str ''2024-06-01 11:55''), (''power'', Num 3), (''energy_daily'', Num 8), (''energy_total'', Num (32/10))]" "Num 8" "Num (32/10)" False "\<lparr>year = 2024, month = 6, day = 1, hour = 12, minute = 0, second = 7, microsecond = 0\<rparr>"]
  by (simp add: strftime_def year_str_def pad2_def digit_char_def)

text \<open>
  C5.  With a sample on a new day and a last entry that has an \<open>energy_total\<close>, the entry
  produced has \<open>energy_daily\<close> 0, the \<open>energy_total\<close> of the last entry and not that of
  the sample, and the power and timestamp of the sample.  In Scenario A (last entry of
  2024-06-01 23:58 with daily 12.3 and total 4.50, sample of 2024-06-02 00:02 with power 5,
  daily 0.1 and total 4.50) the day has changed and the entry is timestamp
  2024-06-02 00:02, power 5, daily 0, total 4.50.
\<close>

theorem new_day_sample_entry:
  "(map_of le ''energy_total'' = Some lt \<longrightarrow>
      reconcile (Some (get_dtu_data_dict ts p d t)) (Some le) True now =
        Inr [(''timestamp'', Str ts), (''power'', Num (of_int p)),
             (''energy_daily'', Num 0), (''energy_total'', lt)])
   \<and> is_new_day (Some [(''timestamp'', Str ''2024-06-01 23:58''), (''power'', Num 0), (''energy_daily'', Num (123/10)), (''energy_total'', Num (450/100))]) \<lparr>year = 2024, month = 6, day = 2, hour = 0, minute = 2, second = 0, microsecond = 0\<rparr>
   \<and> reconcile (Some (get_dtu_data_dict ''2024-06-02 00:02'' 5 (1/10) (450/100)))
        (Some [(''timestamp'', Str ''2024-06-01 23:58''), (''power'', Num 0), (''energy_daily'', Num (123/10)), (''energy_total'', Num (450/100))])
        (is_new_day (Some [(''timestamp'', Str ''2024-06-01 23:58''), (''power'', Num 0), (''energy_daily'', Num (123/10)), (''energy_total'', Num (450/100))]) \<lparr>year = 2024, month = 6, day = 2, hour = 0, minute = 2, second = 0, microsecond = 0\<rparr>) \<lparr>year = 2024, month = 6, day = 2, hour = 0, minute = 2, second = 0, microsecond = 0\<rparr> =
        Inr [(''timestamp'', Str ''2024-06-02 00:02''), (''power'', Num 5), (''energy_daily'', Num 0), (''energy_total'', Num (450/100))]"
proof (intro conjI impI)
  assume a: "map_of le ''energy_total'' = Some lt"
  from a truthy_field [OF a]
  show "reconcile (Some (get_dtu_data_dict ts p d t)) (Some le) True now =
        Inr [(''timestamp'', Str ts), (''power'', Num (of_int p)),
             (''energy_daily'', Num 0), (''energy_total'', lt)]"
    by (simp add: reconcile_sample dtu_nonempty new_day_reset_some dict_get_def)
next
  show nd: "is_new_day (Some [(''timestamp'', Str ''2024-06-01 23:58''), (''power'', Num 0), (''energy_daily'', Num (123/10)), (''energy_total'', Num (450/100))]) \<lparr>year = 2024, month = 6, day = 2, hour = 0, minute = 2, second = 0, microsecond = 0\<rparr>"
    by (simp add: eval_defs)
  show "reconcile (Some (get_dtu_data_dict ''2024-06-02 00:02'' 5 (1/10) (450/100)))
        (Some [(''timestamp'', Str ''2024-06-01 23:58''), (''power'', Num 0), (''energy_daily'', Num (123/10)), (''energy_total'', Num (450/100))])
        (is_new_day (Some [(''timestamp'', Str ''2024-06-01 23:58''), (''power'', Num 0), (''energy_daily'', Num (123/10)), (''energy_total'', Num (450/100))]) \<lparr>year = 2024, month = 6, day = 2, hour = 0, minute = 2, second = 0, microsecond = 0\<rparr>) \<lparr>year = 2024, month = 6, day = 2, hour = 0, minute = 2, second = 0, microsecond = 0\<rparr> =
        Inr [(''timestamp'', Str ''2024-06-02 00:02''), (''power'', Num 5), (''energy_daily'', Num 0), (''energy_total'', Num (450/100))]"
    unfolding nd [THEN eqTrueI]
    by (simp add: reconcile_def truthy_def new_day_reset_def get_dtu_data_dict_def dict_get_def)
qed

theorem new_day_sample_entry_witness:
  "map_of [(''timestamp'', Str ''2024-06-01 23:58''), (''power'', Num 0), (''energy_daily'', Num (123/10)), (''energy_total'', Num (450/100))] ''energy_total'' = Some (Num (450/100))
   \<and> reconcile (Some (get_dtu_data_dict ''2024-06-02 00:07'' 0 0 0)) (Some [(''timestamp'', Str ''2024-06-01 23:58''), (''power'', Num 0), (''energy_daily'', Num (123/10)), (''energy_total'', Num (450/100))]) True \<lparr>year = 2024, month = 6, day = 2, hour = 0, minute = 7, second = 0, microsecond = 0\<rparr> =
       Inr [(''timestamp'', Str ''2024-06-02 00:07''), (''power'', Num 0), (''energy_daily'', Num 0), (''energy_total'', Num (450/100))]"
  using new_day_sample_entry [of "[(''timestamp'', Str ''2024-06-01 23:58''), (''power'', Num 0), (''energy_daily'', Num (123/10)), (''energy_total'', Num (450/100))]" "Num (450/100)" "''2024-06-02 00:07''" 0 0 0 "\<lparr>year = 2024, month = 6, day = 2, hour = 0, minute = 7, second = 0, microsecond = 0\<rparr>"]
  by simp

text \<open>
  C4.  On a new day the entry produced has \<open>energy_daily\<close> exactly 0: whatever the
  result of the query is, every entry a run produces has it; and an entry is produced
  both for a sample (whatever daily energy it reports) and without one.
\<close>

theorem new_day_daily_zero:
  "(\<forall>result e. reconcile result last_entry True now = Inr e \<longrightarrow>
       map_of e ''energy_daily'' = Some (Num 0))
   \<and> (\<exists>e. reconcile (Some (get_dtu_data_dict ts p d t)) last_entry True now = Inr e)
   \<and> (\<exists>e. reconcile None last_entry True now = Inr e)"
proof (intro conjI allI impI)
  fix result e
  assume r: "reconcile result last_entry True now = Inr e"
  show "map_of e ''energy_daily'' = Some (Num 0)"
  proof (cases "truthy result")
    case None
    with r have e: "e = no_data_fallback last_entry True now"
      by (simp add: reconcile_def)
    from truthy_cases [of last_entry] show ?thesis
      by (auto simp: e no_data_fallback_some no_data_fallback_none)
  next
    case (Some x)
    with r have "new_day_reset x last_entry = Inr e"
      by (simp add: reconcile_def)
    then show ?thesis by (rule new_day_reset_daily)
  qed
next
  from truthy_cases [of last_entry]
  show "\<exists>e. reconcile (Some (get_dtu_data_dict ts p d t)) last_entry True now = Inr e"
    by (auto simp: reconcile_sample dtu_nonempty new_day_reset_some new_day_reset_none)
next
  show "\<exists>e. reconcile None last_entry True now = Inr e"
    by (simp add: reconcile_absent)
qed

theorem new_day_daily_zero_witness:
  "reconcile (Some (get_dtu_data_dict ''2024-06-02 00:02'' 5 (1/10) (451/100)))
      (Some [(''timestamp'', Str ''2024-06-01 23:58''), (''power'', Num 0), (''energy_daily'', Num (123/10)), (''energy_total'', Num (450/100))]) True \<lparr>year = 2024, month = 6, day = 2, hour = 0, minute = 2, second = 0, microsecond = 0\<rparr> = Inr [(''timestamp'', Str ''2024-06-02 00:02''), (''power'', Num 5), (''energy_daily'', Num 0), (''energy_total'', Num (450/100))]
   \<and> map_of [(''timestamp'', Str ''2024-06-02 00:02''), (''power'', Num 5), (''energy_daily'', Num 0), (''energy_total'', Num (450/100))] ''energy_daily'' = Some (Num 0)
   \<and> reconcile None (Some [(''timestamp'', Str ''2024-06-01 23:58''), (''power'', Num 0), (''energy_daily'', Num (123/10)), (''energy_total'', Num (450/100))]) True \<lparr>year = 2024, month = 6, day = 2, hour = 0, minute = 2, second = 0, microsecond = 0\<rparr> = Inr [(''timestamp'', Str ''2024-06-02 00:02''), (''power'', Num 0), (''energy_daily'', Num 0), (''energy_total'', Num (450/100))]
   \<and> map_of [(''timestamp'', Str ''2024-06-02 00:02''), (''power'', Num 0), (''energy_daily'', Num 0), (''energy_total'', Num (450/100))] ''energy_daily'' = Some (Num 0)"
  using new_day_daily_zero [of "Some [(''timestamp'', Str ''2024-06-01 23:58''), (''power'', Num 0), (''energy_daily'', Num (123/10)), (''energy_total'', Num (450/100))]" "\<lparr>year = 2024, month = 6, day = 2, hour = 0, minute = 2, second = 0, microsecond = 0\<rparr>" "''2024-06-02 00:02''" 5 "1/10" "451/100"]
  by (simp add: eval_defs)

text \<open>
  C3.  With a sample on the same day whose power is 0 and whose \<open>energy_daily\<close> is 0,
  and a last entry that has an \<open>energy_daily\<close>: every entry produced records the
  \<open>energy_daily\<close> of the last entry and power 0, and an entry is produced whenever the
  \<open>energy_total\<close> of the last entry is a number or missing.  In Scenario B (last total
  4.50, sample with power 0, daily 0, total 4.49) the entry has the daily energy of the last
  entry, total 4.50 and power 0.
\<close>

theorem false_zero_daily_carried:
  "(map_of le ''energy_daily'' = Some ld \<longrightarrow>
      (\<forall>e. reconcile (Some (get_dtu_data_dict ts 0 0 t)) (Some le) False now = Inr e \<longrightarrow>
           map_of e ''energy_daily'' = Some ld \<and> map_of e ''power'' = Some (Num 0))
      \<and> (to_num (dict_get le ''energy_total'' (Num 0)) \<noteq> None \<longrightarrow>
           (\<exists>e. reconcile (Some (get_dtu_data_dict ts 0 0 t)) (Some le) False now = Inr e)))
   \<and> (map_of le ''energy_daily'' = Some ld \<and> map_of le ''energy_total'' = Some (Num (450/100)) \<longrightarrow>
        reconcile (Some (get_dtu_data_dict ts 0 0 (449/100))) (Some le) False now =
          Inr [(''timestamp'', Str ts), (''power'', Num 0), (''energy_daily'', ld),
               (''energy_total'', Num (450/100))])"
proof (intro conjI impI allI)
  fix e
  assume d: "map_of le ''energy_daily'' = Some ld"
    and r: "reconcile (Some (get_dtu_data_dict ts 0 0 t)) (Some le) False now = Inr e"
  from r have "night_fallback (get_dtu_data_dict ts 0 0 t) (Some le) = Inr e"
    by (simp add: reconcile_sample dtu_nonempty)
  from night_fallback_zero_daily [OF truthy_field [OF d] this] d
  show "map_of e ''energy_daily'' = Some ld" and "map_of e ''power'' = Some (Num 0)"
    by (simp_all add: dict_get_def)
next
  assume d: "map_of le ''energy_daily'' = Some ld"
    and n: "to_num (dict_get le ''energy_total'' (Num 0)) \<noteq> None"
  from n obtain lt where "to_num (dict_get le ''energy_total'' (Num 0)) = Some lt"
    by auto
  from night_fallback_zero [OF truthy_field [OF d] this]
  show "\<exists>e. reconcile (Some (get_dtu_data_dict ts 0 0 t)) (Some le) False now = Inr e"
    by (simp add: reconcile_sample dtu_nonempty)
next
  assume a: "map_of le ''energy_daily'' = Some ld \<and> map_of le ''energy_total'' = Some (Num (450/100))"
  then have d: "map_of le ''energy_daily'' = Some ld"
    and n: "to_num (dict_get le ''energy_total'' (Num 0)) = Some (450/100)"
    by (simp_all add: dict_get_def)
  from night_fallback_zero [OF truthy_field [OF d] n] a
  show "reconcile (Some (get_dtu_data_dict ts 0 0 (449/100))) (Some le) False now =
          Inr [(''timestamp'', Str ts), (''power'', Num 0), (''energy_daily'', ld),
               (''energy_total'', Num (450/100))]"
    by (simp add: reconcile_sample dtu_nonempty dict_get_def)
qed

theorem false_zero_daily_carried_witness:
  "map_of [(''timestamp'', Str ''2024-06-01 23:50''), (''power'', Num 0), (''energy_daily'', Num (123/10)), (''energy_total'', Num (450/100))] ''energy_daily'' = Some (Num (123/10))
   \<and> map_of [(''timestamp'', Str ''2024-06-01 23:50''), (''power'', Num 0), (''energy_daily'', Num (123/10)), (''energy_total'', Num (450/100))] ''energy_total'' = Some (Num (450/100))
   \<and> reconcile (Some (get_dtu_data_dict ''2024-06-01 23:58'' 0 0 (449/100))) (Some [(''timestamp'', Str ''2024-06-01 23:50''), (''power'', Num 0), (''energy_daily'', Num (123/10)), (''energy_total'', Num (450/100))]) False \<lparr>year = 2024, month = 6, day = 1, hour = 23, minute = 59, second = 30, microsecond = 0\<rparr> =
       Inr [(''timestamp'', Str ''2024-06-01 23:58''), (''power'', Num 0), (''energy_daily'', Num (123/10)), (''energy_total'', Num (450/100))]
   \<and> map_of [(''timestamp'', Str ''2024-06-01 23:58''), (''power'', Num 0), (''energy_daily'', Num (123/10)), (''energy_total'', Num (450/100))] ''energy_daily'' = Some (Num (123/10))
   \<and> map_of [(''timestamp'', Str ''2024-06-01 23:58''), (''power'', Num 0), (''energy_daily'', Num (123/10)), (''energy_total'', Num (450/100))] ''power'' = Some (Num 0)"
  using false_zero_daily_carried
    [of "[(''timestamp'', Str ''2024-06-01 23:50''), (''power'', Num 0), (''energy_daily'', Num (123/10)), (''energy_total'', Num (450/100))]" "Num (123/10)" "''2024-06-01 23:58''" "449/100" "\<lparr>year = 2024, month = 6, day = 1, hour = 23, minute = 59, second = 30, microsecond = 0\<rparr>"]
  by (simp add: dict_get_def)

text \<open>
  C2, as the code has it.  The carry-over of \<open>energy_total\<close> is guarded by the sample's
  power being 0: with a sample on the same day whose power is 0, and a last entry whose
  \<open>energy_total\<close> is a number, a sample total strictly below the last total is replaced
  by the last total, whether or not the sample's \<open>energy_daily\<close> is 0.  A sample with a
  power other than 0 is appended as reported.
\<close>

theorem regression_carried_when_power_zero:
  assumes "map_of le ''energy_total'' = Some (Num lt)"
  shows "(t < lt \<longrightarrow>
            (\<exists>e. reconcile (Some (get_dtu_data_dict ts 0 d t)) (Some le) False now = Inr e
                 \<and> map_of e ''energy_total'' = Some (Num lt)))
       \<and> (p \<noteq> 0 \<longrightarrow>
            reconcile (Some (get_dtu_data_dict ts p d t)) (Some le) False now =
              Inr (get_dtu_data_dict ts p d t))"
  using assms truthy_field [OF assms]
  by (simp add: reconcile_sample dtu_nonempty night_fallback_zero [where lt = lt]
      night_fallback_nonzero dict_get_def)

theorem regression_carried_when_power_zero_witness:
  "map_of [(''timestamp'', Str ''2024-06-01 23:50''), (''power'', Num 0), (''energy_daily'', Num (123/10)), (''energy_total'', Num (450/100))] ''energy_total'' = Some (Num (450/100))
   \<and> (449/100 :: rat) < 450/100
   \<and> (\<exists>e. reconcile (Some (get_dtu_data_dict ''2024-06-01 23:59'' 0 (31/10) (449/100)))
             (Some [(''timestamp'', Str ''2024-06-01 23:50''), (''power'', Num 0), (''energy_daily'', Num (123/10)), (''energy_total'', Num (450/100))]) False \<lparr>year = 2024, month = 6, day = 1, hour = 23, minute = 59, second = 30, microsecond = 0\<rparr> = Inr e
          \<and> map_of e ''energy_total'' = Some (Num (450/100)))
   \<and> reconcile (Some (get_dtu_data_dict ''2024-06-01 23:59'' 5 (31/10) (449/100)))
        (Some [(''timestamp'', Str ''2024-06-01 23:50''), (''power'', Num 0), (''energy_daily'', Num (123/10)), (''energy_total'', Num (450/100))]) False \<lparr>year = 2024, month = 6, day = 1, hour = 23, minute = 59, second = 30, microsecond = 0\<rparr> =
        Inr (get_dtu_data_dict ''2024-06-01 23:59'' 5 (31/10) (449/100))"
  using regression_carried_when_power_zero
    [of "[(''timestamp'', Str ''2024-06-01 23:50''), (''power'', Num 0), (''energy_daily'', Num (123/10)), (''energy_total'', Num (450/100))]" "450/100" "449/100" "''2024-06-01 23:59''" "31/10" "\<lparr>year = 2024, month = 6, day = 1, hour = 23, minute = 59, second = 30, microsecond = 0\<rparr>" 5]
  by simp

text \<open>
  C2 as the specification states it fails: on the same day, a sample with power 150 and
  total 12.30 after a last entry with total 12.34 is appended with total 12.30.
\<close>

theorem regression_kept_when_power_nonzero:
  "reconcile (Some (get_dtu_data_dict ''2024-06-01 12:00'' 150 (32/10) (1230/100)))
     (Some [(''timestamp'', Str ''2024-06-01 11:55''), (''power'', Num 140), (''energy_daily'', Num (31/10)), (''energy_total'', Num (1234/100))]) False \<lparr>year = 2024, month = 6, day = 1, hour = 12, minute = 0, second = 3, microsecond = 0\<rparr> = Inr [(''timestamp'', Str ''2024-06-01 12:00''), (''power'', Num 150), (''energy_daily'', Num (32/10)), (''energy_total'', Num (1230/100))]
   \<and> map_of [(''timestamp'', Str ''2024-06-01 11:55''), (''power'', Num 140), (''energy_daily'', Num (31/10)), (''energy_total'', Num (1234/100))] ''energy_total'' = Some (Num (1234/100))
   \<and> map_of [(''timestamp'', Str ''2024-06-01 12:00''), (''power'', Num 150), (''energy_daily'', Num (32/10)), (''energy_total'', Num (1230/100))] ''energy_total'' = Some (Num (1230/100))
   \<and> (1230/100 :: rat) < 1234/100"
  by (simp add: reconcile_def truthy_def night_fallback_def get_dtu_data_dict_def
      dict_get_def py_eq_def)

text \<open>
  C1, as the code has it.  When a last entry exists and its \<open>energy_total\<close> is a number,
  the entry produced has an \<open>energy_total\<close> that is a number not below it in each of
  these cases: no sample, a new day, a sample whose power is 0.
\<close>

theorem energy_total_monotone_when_guarded:
  assumes "map_of le ''energy_total'' = Some (Num lt)"
    and "result = None \<or> result = Some (get_dtu_data_dict ts p d t)"
    and "result = None \<or> new_day \<or> p = 0"
  shows "\<exists>e v. reconcile result (Some le) new_day now = Inr e
            \<and> map_of e ''energy_total'' = Some (Num v) \<and> lt \<le> v"
proof -
  note tr = truthy_field [OF assms(1)]
  show ?thesis
  proof (cases "result = None")
    case True
    with assms(1) tr show ?thesis
      by (simp add: reconcile_absent no_data_fallback_some dict_get_def)
  next
    case False
    with assms(2) have r: "result = Some (get_dtu_data_dict ts p d t)"
      by simp
    show ?thesis
    proof (cases new_day)
      case True
      with assms(1) tr r show ?thesis
        by (simp add: reconcile_sample dtu_nonempty new_day_reset_some dict_get_def)
    next
      case nd: False
      with assms(3) False have p: "p = 0"
        by simp
      from assms(1) tr show ?thesis
        unfolding r p using nd
        by (simp add: reconcile_sample dtu_nonempty night_fallback_zero [where lt = lt]
            dict_get_def)
    qed
  qed
qed

theorem energy_total_monotone_when_guarded_witness:
  "map_of [(''timestamp'', Str ''2024-06-01 23:50''), (''power'', Num 0), (''energy_daily'', Num (123/10)), (''energy_total'', Num (450/100))] ''energy_total'' = Some (Num (450/100))
   \<and> (\<exists>e v. reconcile (Some (get_dtu_data_dict ''2024-06-01 23:59'' 0 (1/10) (123/100)))
               (Some [(''timestamp'', Str ''2024-06-01 23:50''), (''power'', Num 0), (''energy_daily'', Num (123/10)), (''energy_total'', Num (450/100))]) False \<lparr>year = 2024, month = 6, day = 1, hour = 23, minute = 59, second = 30, microsecond = 0\<rparr> = Inr e
            \<and> map_of e ''energy_total'' = Some (Num v) \<and> 450/100 \<le> v)"
  using energy_total_monotone_when_guarded
    [of "[(''timestamp'', Str ''2024-06-01 23:50''), (''power'', Num 0), (''energy_daily'', Num (123/10)), (''energy_total'', Num (450/100))]" "450/100" "Some (get_dtu_data_dict ''2024-06-01 23:59'' 0 (1/10) (123/100))"
        "''2024-06-01 23:59''" 0 "1/10" "123/100" False "\<lparr>year = 2024, month = 6, day = 1, hour = 23, minute = 59, second = 30, microsecond = 0\<rparr>"]
  by simp

text \<open>
  C1 as the specification states it fails: a run of \<open>main\<close> on a history whose last entry
  has total 4.50, with a sample of the same day that reports power 5 and total 4.49,
  appends an entry with total 4.49.
\<close>

theorem energy_total_decrease_recorded:
  "main [[(''timestamp'', Str ''2024-06-01 11:55''), (''power'', Num 7), (''energy_daily'', Num (21/10)), (''energy_total'', Num (450/100))]] \<lparr>year = 2024, month = 6, day = 1, hour = 12, minute = 0, second = 1, microsecond = 0\<rparr> \<lparr>year = 2024, month = 6, day = 1, hour = 12, minute = 0, second = 2, microsecond = 0\<rparr>
     (Some (get_dtu_data_dict ''2024-06-01 12:00'' 5 (22/10) (449/100)))
     = Inr [[(''timestamp'', Str ''2024-06-01 11:55''), (''power'', Num 7), (''energy_daily'', Num (21/10)), (''energy_total'', Num (450/100))], [(''timestamp'', Str ''2024-06-01 12:00''), (''power'', Num 5), (''energy_daily'', Num (22/10)), (''energy_total'', Num (449/100))]]
   \<and> map_of [(''timestamp'', Str ''2024-06-01 11:55''), (''power'', Num 7), (''energy_daily'', Num (21/10)), (''energy_total'', Num (450/100))] ''energy_total'' = Some (Num (450/100))
   \<and> map_of [(''timestamp'', Str ''2024-06-01 12:00''), (''power'', Num 5), (''energy_daily'', Num (22/10)), (''energy_total'', Num (449/100))] ''energy_total'' = Some (Num (449/100))
   \<and> \<not> ((450/100 :: rat) \<le> 449/100)"
  by (simp add: eval_defs)

text \<open>
  C10, as the code has it.  For every last entry that is present (a non-empty dict),
  whatever fields it lacks: without a sample, and with a sample on a new day, an entry is
  produced; on the same day an entry is produced when the sample's power is not 0, and
  when it is 0 provided the \<open>energy_total\<close> of the last entry is missing or a number.
  Without a sample a missing \<open>energy_daily\<close> and a missing \<open>energy_total\<close> are recorded
  as 0.  In the night fallback a missing \<open>energy_daily\<close> is recorded as 0, and a missing
  \<open>energy_total\<close> leaves the total the sample reported.  On a new day a missing
  \<open>energy_total\<close> leaves the total the sample reported.
\<close>

theorem missing_last_fields_entry:
  assumes ne: "le \<noteq> []"
  shows "reconcile None (Some le) new_day now =
           Inr [(''timestamp'', Str (strftime now)), (''power'', Num 0),
                (''energy_daily'',
                   if new_day then Num 0
                   else (case map_of le ''energy_daily'' of None \<Rightarrow> Num 0 | Some v \<Rightarrow> v)),
                (''energy_total'',
                   case map_of le ''energy_total'' of None \<Rightarrow> Num 0 | Some v \<Rightarrow> v)]
       \<and> reconcile (Some (get_dtu_data_dict ts p d t)) (Some le) True now =
           Inr [(''timestamp'', Str ts), (''power'', Num (of_int p)), (''energy_daily'', Num 0),
                (''energy_total'',
                   case map_of le ''energy_total'' of None \<Rightarrow> Num t | Some v \<Rightarrow> v)]
       \<and> (p \<noteq> 0 \<longrightarrow>
            reconcile (Some (get_dtu_data_dict ts p d t)) (Some le) False now =
              Inr (get_dtu_data_dict ts p d t))
       \<and> (to_num (dict_get le ''energy_total'' (Num 0)) = Some lt \<longrightarrow>
            reconcile (Some (get_dtu_data_dict ts 0 d t)) (Some le) False now =
              Inr [(''timestamp'', Str ts), (''power'', Num 0),
                   (''energy_daily'',
                      if d = 0
                      then (case map_of le ''energy_daily'' of None \<Rightarrow> Num 0 | Some v \<Rightarrow> v)
                      else Num d),
                   (''energy_total'',
                      case map_of le ''energy_total'' of
                        None \<Rightarrow> Num t
                      | Some v \<Rightarrow> if t < lt then v else Num t)])"
proof (intro conjI impI)
  have tr: "truthy (Some le) = Some le"
    using ne by (rule truthy_Some)
  show "reconcile None (Some le) new_day now =
           Inr [(''timestamp'', Str (strftime now)), (''power'', Num 0),
                (''energy_daily'',
                   if new_day then Num 0
                   else (case map_of le ''energy_daily'' of None \<Rightarrow> Num 0 | Some v \<Rightarrow> v)),
                (''energy_total'',
                   case map_of le ''energy_total'' of None \<Rightarrow> Num 0 | Some v \<Rightarrow> v)]"
    by (simp add: reconcile_absent no_data_fallback_some [OF tr] dict_get_def)
  show "reconcile (Some (get_dtu_data_dict ts p d t)) (Some le) True now =
           Inr [(''timestamp'', Str ts), (''power'', Num (of_int p)), (''energy_daily'', Num 0),
                (''energy_total'',
                   case map_of le ''energy_total'' of None \<Rightarrow> Num t | Some v \<Rightarrow> v)]"
    by (simp add: reconcile_sample dtu_nonempty new_day_reset_some [OF tr] dict_get_def)
  show "reconcile (Some (get_dtu_data_dict ts p d t)) (Some le) False now =
          Inr (get_dtu_data_dict ts p d t)" if "p \<noteq> 0"
    using that by (simp add: reconcile_sample dtu_nonempty night_fallback_nonzero)
  show "reconcile (Some (get_dtu_data_dict ts 0 d t)) (Some le) False now =
          Inr [(''timestamp'', Str ts), (''power'', Num 0),
               (''energy_daily'',
                  if d = 0
                  then (case map_of le ''energy_daily'' of None \<Rightarrow> Num 0 | Some v \<Rightarrow> v)
                  else Num d),
               (''energy_total'',
                  case map_of le ''energy_total'' of
                    None \<Rightarrow> Num t
                  | Some v \<Rightarrow> if t < lt then v else Num t)]"
    if num: "to_num (dict_get le ''energy_total'' (Num 0)) = Some lt"
    using num
    by (auto simp: reconcile_sample dtu_nonempty night_fallback_zero [OF tr num] dict_get_def
        split: option.splits)
qed

theorem missing_last_fields_entry_witness:
  "[(''timestamp'', Str ''2024-06-01 23:50''), (''power'', Num 0), (''energy_total'', Num (450/100))] \<noteq> []
   \<and> map_of [(''timestamp'', Str ''2024-06-01 23:50''), (''power'', Num 0), (''energy_total'', Num (450/100))] ''energy_daily'' = None
   \<and> to_num (dict_get [(''timestamp'', Str ''2024-06-01 23:50''), (''power'', Num 0), (''energy_total'', Num (450/100))] ''energy_total'' (Num 0)) = Some (450/100)
   \<and> reconcile None (Some [(''timestamp'', Str ''2024-06-01 23:50''), (''power'', Num 0), (''energy_total'', Num (450/100))]) False \<lparr>year = 2024, month = 6, day = 1, hour = 23, minute = 58, second = 30, microsecond = 0\<rparr> = Inr [(''timestamp'', Str ''2024-06-01 23:58''), (''power'', Num 0), (''energy_daily'', Num 0), (''energy_total'', Num (450/100))]
   \<and> reconcile (Some (get_dtu_data_dict ''2024-06-01 23:58'' 0 0 (449/100))) (Some [(''timestamp'', Str ''2024-06-01 23:50''), (''power'', Num 0), (''energy_total'', Num (450/100))]) False \<lparr>year = 2024, month = 6, day = 1, hour = 23, minute = 58, second = 30, microsecond = 0\<rparr>
       = Inr [(''timestamp'', Str ''2024-06-01 23:58''), (''power'', Num 0), (''energy_daily'', Num 0), (''energy_total'', Num (450/100))]
   \<and> reconcile (Some (get_dtu_data_dict ''2024-06-01 23:58'' 3 (1/10) (449/100))) (Some [(''timestamp'', Str ''2024-06-01 23:50''), (''power'', Num 0), (''energy_total'', Num (450/100))]) False \<lparr>year = 2024, month = 6, day = 1, hour = 23, minute = 58, second = 30, microsecond = 0\<rparr>
       = Inr (get_dtu_data_dict ''2024-06-01 23:58'' 3 (1/10) (449/100))
   \<and> [(''timestamp'', Str ''2024-06-01 23:50''), (''power'', Num 0), (''energy_daily'', Num (123/10))] \<noteq> []
   \<and> map_of [(''timestamp'', Str ''2024-06-01 23:50''), (''power'', Num 0), (''energy_daily'', Num (123/10))] ''energy_total'' = None
   \<and> to_num (dict_get [(''timestamp'', Str ''2024-06-01 23:50''), (''power'', Num 0), (''energy_daily'', Num (123/10))] ''energy_total'' (Num 0)) = Some 0
   \<and> reconcile None (Some [(''timestamp'', Str ''2024-06-01 23:50''), (''power'', Num 0), (''energy_daily'', Num (123/10))]) False \<lparr>year = 2024, month = 6, day = 1, hour = 23, minute = 58, second = 30, microsecond = 0\<rparr> = Inr [(''timestamp'', Str ''2024-06-01 23:58''), (''power'', Num 0), (''energy_daily'', Num (123/10)), (''energy_total'', Num 0)]
   \<and> reconcile (Some (get_dtu_data_dict ''2024-06-01 23:58'' 0 0 (449/100))) (Some [(''timestamp'', Str ''2024-06-01 23:50''), (''power'', Num 0), (''energy_daily'', Num (123/10))]) False \<lparr>year = 2024, month = 6, day = 1, hour = 23, minute = 58, second = 30, microsecond = 0\<rparr>
       = Inr [(''timestamp'', Str ''2024-06-01 23:58''), (''power'', Num 0), (''energy_daily'', Num (123/10)), (''energy_total'', Num (449/100))]
   \<and> reconcile (Some (get_dtu_data_dict ''2024-06-01 23:58'' 0 (1/10) (449/100))) (Some [(''timestamp'', Str ''2024-06-01 23:50''), (''power'', Num 0), (''energy_daily'', Num (123/10))]) True \<lparr>year = 2024, month = 6, day = 1, hour = 23, minute = 58, second = 30, microsecond = 0\<rparr>
       = Inr [(''timestamp'', Str ''2024-06-01 23:58''), (''power'', Num 0), (''energy_daily'', Num 0), (''energy_total'', Num (449/100))]"
  using
    missing_last_fields_entry
      [where le = "[(''timestamp'', Str ''2024-06-01 23:50''), (''power'', Num 0), (''energy_total'', Num (450/100))]"
         and new_day = False and now = "\<lparr>year = 2024, month = 6, day = 1, hour = 23, minute = 58, second = 30, microsecond = 0\<rparr>"
         and ts = "''2024-06-01 23:58''" and p = 3 and d = "1/10" and t = "449/100"
         and lt = "450/100"]
    missing_last_fields_entry
      [where le = "[(''timestamp'', Str ''2024-06-01 23:50''), (''power'', Num 0), (''energy_total'', Num (450/100))]"
         and new_day = False and now = "\<lparr>year = 2024, month = 6, day = 1, hour = 23, minute = 58, second = 30, microsecond = 0\<rparr>"
         and ts = "''2024-06-01 23:58''" and p = 0 and d = "0" and t = "449/100"
         and lt = "450/100"]
    missing_last_fields_entry
      [where le = "[(''timestamp'', Str ''2024-06-01 23:50''), (''power'', Num 0), (''energy_daily'', Num (123/10))]"
         and new_day = False and now = "\<lparr>year = 2024, month = 6, day = 1, hour = 23, minute = 58, second = 30, microsecond = 0\<rparr>"
         and ts = "''2024-06-01 23:58''" and p = 0 and d = "0" and t = "449/100"
         and lt = "0"]
    missing_last_fields_entry
      [where le = "[(''timestamp'', Str ''2024-06-01 23:50''), (''power'', Num 0), (''energy_daily'', Num (123/10))]"
         and new_day = False and now = "\<lparr>year = 2024, month = 6, day = 1, hour = 23, minute = 58, second = 30, microsecond = 0\<rparr>"
         and ts = "''2024-06-01 23:58''" and p = 0 and d = "1/10" and t = "449/100"
         and lt = "0"]
  by (simp add: dict_get_def get_dtu_data_dict_def strftime_def year_str_def pad2_def
      digit_char_def)

text \<open>
  C10 as the specification states it fails twice in the night fallback.  A last entry
  without \<open>energy_total\<close> is not treated as one with total 0: for a sample with power 0
  and total -0.01 the entry keeps -0.01, where the last entry with the missing fields set
  to 0 gives 0.  And a last entry without \<open>energy_daily\<close> whose \<open>energy_total\<close> is
  \<open>null\<close> makes the comparison of the totals raise \<open>TypeError\<close>.
\<close>

theorem missing_last_total_not_zero:
  "map_of [(''timestamp'', Str ''2024-06-01 23:50''), (''power'', Num 0), (''energy_daily'', Num (123/10))] ''energy_total'' = None
   \<and> reconcile (Some (get_dtu_data_dict ''2024-06-01 23:58'' 0 0 (-1/100))) (Some [(''timestamp'', Str ''2024-06-01 23:50''), (''power'', Num 0), (''energy_daily'', Num (123/10))]) False \<lparr>year = 2024, month = 6, day = 1, hour = 23, minute = 58, second = 30, microsecond = 0\<rparr>
       = Inr [(''timestamp'', Str ''2024-06-01 23:58''), (''power'', Num 0), (''energy_daily'', Num (123/10)), (''energy_total'', Num (-1/100))]
   \<and> reconcile (Some (get_dtu_data_dict ''2024-06-01 23:58'' 0 0 (-1/100)))
        (Some (zero_filled [(''timestamp'', Str ''2024-06-01 23:50''), (''power'', Num 0), (''energy_daily'', Num (123/10))])) False \<lparr>year = 2024, month = 6, day = 1, hour = 23, minute = 58, second = 30, microsecond = 0\<rparr>
       = Inr [(''timestamp'', Str ''2024-06-01 23:58''), (''power'', Num 0), (''energy_daily'', Num (123/10)), (''energy_total'', Num 0)]
   \<and> map_of [(''timestamp'', Str ''2024-06-01 23:50''), (''power'', Num 0), (''energy_total'', Null)] ''energy_daily'' = None
   \<and> reconcile (Some (get_dtu_data_dict ''2024-06-01 23:58'' 0 0 (449/100))) (Some [(''timestamp'', Str ''2024-06-01 23:50''), (''power'', Num 0), (''energy_total'', Null)]) False \<lparr>year = 2024, month = 6, day = 1, hour = 23, minute = 58, second = 30, microsecond = 0\<rparr>
       = Inl TypeError"
  by (simp add: reconcile_def truthy_def night_fallback_def get_dtu_data_dict_def
      dict_get_def py_eq_def py_lt_def zero_filled_def fill_zero_def)

end
